theory Spec2Isabelle
  imports Main "HOL-Library.AList"
begin

section \<open>Settings\<close>

text \<open>The module-level constants of \<^verbatim>\<open>run_nfl_update.py\<close> (lines 10-21).\<close>

definition GOOGLE_SHEET_NAME :: string where
  "GOOGLE_SHEET_NAME = ''My_NFL_Betting_Data1''"

definition WORKSHEET_NAME :: string where
  "WORKSHEET_NAME = ''live_picks_sheets''"

definition FIRESTORE_COLLECTION :: string where
  "FIRESTORE_COLLECTION = ''live_picks''"

definition KEY_COLUMN :: string where
  "KEY_COLUMN = ''pick_id''"

section \<open>Tables\<close>

text \<open>
  A cell of a pandas DataFrame as this script meets it: the missing value (\<^verbatim>\<open>NaN\<close>), a
  string, an integer, or a float. A float is given by the text Python prints for it
  (\<^verbatim>\<open>1.0\<close>, \<^verbatim>\<open>2.5\<close>, \<^verbatim>\<open>1e+16\<close>), which determines it; the script does no arithmetic.
\<close>

datatype cell = NaN | Str string | Num int | Flt string

text \<open>
  A DataFrame: the column labels and the rows, each row holding one cell per column
  (\<open>wf_df\<close>). The script never looks at the row index, so it is left out.
\<close>

record dataframe =
  columns :: "string list"
  rows :: "cell list list"

definition wf_df :: "dataframe \<Rightarrow> bool" where
  "wf_df df \<longleftrightarrow> list_all (\<lambda>r. length r = length (columns df)) (rows df)"

text \<open>\<^verbatim>\<open>data_df.empty\<close>: one of the two axes has length 0.\<close>

definition df_empty :: "dataframe \<Rightarrow> bool" where
  "df_empty df \<longleftrightarrow> columns df = [] \<or> rows df = []"

definition isna :: "cell \<Rightarrow> bool" where
  "isna c \<longleftrightarrow> c = NaN"

text \<open>The rows that \<^verbatim>\<open>dropna(how='all')\<close> keeps: those with a cell that is not missing.\<close>

definition dropna_rows :: "dataframe \<Rightarrow> dataframe" where
  "dropna_rows df = df\<lparr>rows := filter (\<lambda>r. \<not> list_all isna r) (rows df)\<rparr>"

text \<open>The table that \<^verbatim>\<open>fillna(value=v)\<close> computes: every missing cell becomes \<open>v\<close>.\<close>

definition fillna_value :: "cell \<Rightarrow> cell \<Rightarrow> cell" where
  "fillna_value v c = (if isna c then v else c)"

definition fillna_cells :: "cell \<Rightarrow> dataframe \<Rightarrow> dataframe" where
  "fillna_cells v df = df\<lparr>rows := map (map (fillna_value v)) (rows df)\<rparr>"

text \<open>
  A Python \<^verbatim>\<open>dict\<close> built from key/value pairs in order: a key seen again keeps its
  place and takes the later value.
\<close>

type_synonym document = "(string \<times> cell) list"

definition py_dict :: "('k \<times> 'v) list \<Rightarrow> ('k \<times> 'v) list" where
  "py_dict kvs = fold (\<lambda>(k, v). AList.update k v) kvs []"

text \<open>\<^verbatim>\<open>to_dict('records')\<close>: one dict per row, from column label to cell.\<close>

definition to_dict_records :: "dataframe \<Rightarrow> document list" where
  "to_dict_records df = map (\<lambda>r. py_dict (zip (columns df) r)) (rows df)"

subsection \<open>The string form of a cell\<close>

fun str_nat :: "nat \<Rightarrow> string" where
  "str_nat n =
     (if n < 10 then [''0123456789'' ! n]
      else str_nat (n div 10) @ [''0123456789'' ! (n mod 10)])"

declare str_nat.simps [simp del]

definition str_int :: "int \<Rightarrow> string" where
  "str_int i = (if i < 0 then CHR ''-'' # str_nat (nat (- i)) else str_nat (nat i))"

text \<open>\<^verbatim>\<open>str(value)\<close> for a cell value.\<close>

fun py_str :: "cell \<Rightarrow> string" where
  "py_str NaN = ''nan''"
| "py_str (Str s) = s"
| "py_str (Num i) = str_int i"
| "py_str (Flt r) = r"

section \<open>The process and the two services\<close>

type_synonym addr = nat

text \<open>A document reference: the path of the document, collection and document IDs in turn.\<close>

type_synonym doc_ref = "string list"

datatype exn = KeyError string | ValueError string | ServiceError string

text \<open>What the script asks of the Firestore batch: \<^verbatim>\<open>batch.set\<close> and \<^verbatim>\<open>batch.commit\<close>.\<close>

datatype api_call = BatchSet doc_ref document | BatchCommit

text \<open>One constructor per \<^verbatim>\<open>print\<close> of the two functions, with the interpolated values.\<close>

datatype message =
    OpeningSheet string
  | ReadingWorksheet string
  | Fetched nat
  | FetchFailed exn
  | NoData
  | KeyColumnNotFound string
  | AvailableColumns "string list"
  | Connecting string
  | Preparing nat
  | UpdateComplete
  | UpdateFailed exn

text \<open>
  The state the script runs in: the DataFrame objects of the process, by address
  (\<open>next_frame\<close> is the first address not yet allocated), the documents of the Firestore
  database by reference, the batch calls made so far, and the
  lines printed so far.
\<close>

record world =
  frames :: "addr \<Rightarrow> dataframe"
  next_frame :: addr
  docs :: "doc_ref \<rightharpoonup> document"
  api_calls :: "api_call list"
  stdout :: "message list"

definition print :: "message \<Rightarrow> world \<Rightarrow> world" where
  "print m w = w\<lparr>stdout := stdout w @ [m]\<rparr>"

definition call :: "api_call \<Rightarrow> world \<Rightarrow> world" where
  "call c w = w\<lparr>api_calls := api_calls w @ [c]\<rparr>"

definition new_frame :: "dataframe \<Rightarrow> world \<Rightarrow> addr \<times> world" where
  "new_frame df w =
     (next_frame w, w\<lparr>frames := (frames w)(next_frame w := df), next_frame := Suc (next_frame w)\<rparr>)"

text \<open>\<^verbatim>\<open>df.dropna(how='all', inplace=True)\<close> changes the object it is called on.\<close>

definition dropna :: "addr \<Rightarrow> world \<Rightarrow> world" where
  "dropna a w = w\<lparr>frames := (frames w)(a := dropna_rows (frames w a))\<rparr>"

text \<open>\<^verbatim>\<open>df.fillna(value=v)\<close> returns a new object and leaves \<open>df\<close> alone.\<close>

definition fillna :: "cell \<Rightarrow> addr \<Rightarrow> world \<Rightarrow> addr \<times> world" where
  "fillna v a w = new_frame (fillna_cells v (frames w a)) w"

text \<open>
  The spreadsheet service, as far as \<open>fetch_sheet_data\<close> uses it: \<^verbatim>\<open>gc.open(name)\<close> raises
  or gives a spreadsheet, \<^verbatim>\<open>sh.worksheet(name)\<close> raises or gives a worksheet, and reading
  the worksheet raises or gives its cell texts, row by row with gaps filled, the header row
  first.
\<close>

type_synonym sheet = "string list list"
type_synonym worksheet = "exn + sheet"
type_synonym spreadsheet = "string \<Rightarrow> exn + worksheet"
type_synonym gspread_client = "string \<Rightarrow> exn + spreadsheet"

text \<open>
  \<^verbatim>\<open>get_as_dataframe(worksheet, header=0)\<close> hands the cell texts to the pandas parser. The
  texts that the parser reads as missing are its default list, below. What else the parser
  decides is a parameter: the column labels it makes of the header row, and the typed cells
  it makes of a column (integers, floats or strings), given which texts are missing.
\<close>

definition na_values :: "string list" where
  "na_values =
     [[], ''#N/A'', ''#N/A N/A'', ''#NA'', ''-1.#IND'', ''-1.#QNAN'', ''-NaN'', ''-nan'',
      ''1.#IND'', ''1.#QNAN'', ''<NA>'', ''N/A'', ''NA'', ''NULL'', ''NaN'', ''None'',
      ''n/a'', ''nan'', ''null'']"

definition read_text :: "string \<Rightarrow> string option" where
  "read_text t = (if t \<in> set na_values then None else Some t)"

record table_parser =
  labels :: "string list \<Rightarrow> string list"
  typing :: "string option list \<Rightarrow> cell list"

definition get_as_dataframe :: "table_parser \<Rightarrow> sheet \<Rightarrow> dataframe" where
  "get_as_dataframe p ws =
     (case ws of
        [] \<Rightarrow> \<lparr>columns = [], rows = []\<rparr>
      | header # data \<Rightarrow>
          \<lparr>columns = labels p header,
           rows = map (\<lambda>i. map (\<lambda>j. typing p (map (\<lambda>r. read_text (r ! j)) data) ! i)
                              [0..<length header])
                      [0..<length data]\<rparr>)"

text \<open>
  The document store, as far as \<open>update_firebase\<close> uses it. Each of
  \<^verbatim>\<open>firestore.client()\<close>, \<^verbatim>\<open>batch.set(doc_ref, record)\<close> and \<^verbatim>\<open>batch.commit()\<close> may raise. A
  commit that does not raise applies the staged operations in the order they were staged,
  each a full overwrite; one that raises leaves the documents as they were.
\<close>

record firestore_api =
  client_error :: "exn option"
  set_error :: "doc_ref \<Rightarrow> document \<Rightarrow> exn option"
  commit_error :: "(doc_ref \<times> document) list \<Rightarrow> exn option"

text \<open>\<^verbatim>\<open>s.split('/')\<close>.\<close>

fun split_slash :: "string \<Rightarrow> string list" where
  "split_slash [] = [[]]"
| "split_slash (c # cs) =
     (if c = CHR ''/'' then [] # split_slash cs
      else case split_slash cs of [] \<Rightarrow> [[c]] | p # ps \<Rightarrow> (c # p) # ps)"

text \<open>\<^verbatim>\<open>'/'.join(parts)\<close>.\<close>

fun join_slash :: "string list \<Rightarrow> string" where
  "join_slash [] = []"
| "join_slash [p] = p"
| "join_slash (p # q # ps) = p @ CHR ''/'' # join_slash (q # ps)"

text \<open>
  \<^verbatim>\<open>db.collection(FIRESTORE_COLLECTION).document(doc_id)\<close>: the client joins the collection
  path and the ID with a slash, splits the result at every slash, and raises unless the
  path so obtained has an even number of elements.
\<close>

definition document :: "string \<Rightarrow> exn + doc_ref" where
  "document doc_id =
     (let path = split_slash (join_slash [FIRESTORE_COLLECTION, doc_id]) in
      if even (length path) then Inr path
      else Inl (ValueError ''A document must have an even number of path elements''))"

definition apply_batch ::
  "(doc_ref \<times> document) list \<Rightarrow> (doc_ref \<rightharpoonup> document) \<Rightarrow> (doc_ref \<rightharpoonup> document)" where
  "apply_batch batch store = fold (\<lambda>(ref, doc) m. m(ref \<mapsto> doc)) batch store"

section \<open>The sheet reader\<close>

definition fetch_sheet_data ::
  "table_parser \<Rightarrow> gspread_client \<Rightarrow> world \<Rightarrow> addr option \<times> world" where
  "fetch_sheet_data p gc w =
     (let w1 = print (OpeningSheet GOOGLE_SHEET_NAME) w in
      case gc GOOGLE_SHEET_NAME of
        Inl e \<Rightarrow> (None, print (FetchFailed e) w1)
      | Inr sh \<Rightarrow>
          (case sh WORKSHEET_NAME of
             Inl e \<Rightarrow> (None, print (FetchFailed e) w1)
           | Inr worksheet \<Rightarrow>
               (let w2 = print (ReadingWorksheet WORKSHEET_NAME) w1 in
                case worksheet of
                  Inl e \<Rightarrow> (None, print (FetchFailed e) w2)
                | Inr ws \<Rightarrow>
                    (let (data_df, w3) = new_frame (get_as_dataframe p ws) w2;
                         w4 = dropna data_df w3;
                         w5 = print (Fetched (length (rows (frames w4 data_df)))) w4
                     in (Some data_df, w5)))))"

section \<open>The store writer\<close>

text \<open>
  The loop of lines 103-112. \<^verbatim>\<open>record[KEY_COLUMN]\<close> raises \<^verbatim>\<open>KeyError\<close> on a dict
  without that key, and \<open>document\<close> and \<^verbatim>\<open>batch.set\<close> may raise; an exception leaves the
  loop with the batch as it stands.
\<close>

fun stage ::
  "firestore_api \<Rightarrow> document list \<Rightarrow> (doc_ref \<times> document) list \<Rightarrow> world \<Rightarrow>
     (exn + (doc_ref \<times> document) list) \<times> world" where
  "stage api [] batch w = (Inr batch, w)"
| "stage api (record # records) batch w =
     (case map_of record KEY_COLUMN of
        None \<Rightarrow> (Inl (KeyError KEY_COLUMN), w)
      | Some v \<Rightarrow>
          (let doc_id = py_str v in
           case document doc_id of
             Inl e \<Rightarrow> (Inl e, w)
           | Inr doc_ref \<Rightarrow>
               (case set_error api doc_ref record of
                  Some e \<Rightarrow> (Inl e, w)
                | None \<Rightarrow>
                    stage api records (batch @ [(doc_ref, record)])
                      (call (BatchSet doc_ref record) w))))"

text \<open>The \<^verbatim>\<open>try\<close> block of \<open>update_firebase\<close> (lines 89-119).\<close>

definition update_firebase_try :: "firestore_api \<Rightarrow> addr \<Rightarrow> world \<Rightarrow> world" where
  "update_firebase_try api data_df w =
     (case client_error api of
        Some e \<Rightarrow> print (UpdateFailed e) w
      | None \<Rightarrow>
          (let (data_df_cleaned, w1) = fillna (Str []) data_df w;
               records = to_dict_records (frames w1 data_df_cleaned);
               w2 = print (Preparing (length records)) w1
           in case stage api records [] w2 of
                (Inl e, w3) \<Rightarrow> print (UpdateFailed e) w3
              | (Inr batch, w3) \<Rightarrow>
                  (let w4 = call BatchCommit w3 in
                   case commit_error api batch of
                     Some e \<Rightarrow> print (UpdateFailed e) w4
                   | None \<Rightarrow>
                       print UpdateComplete (w4\<lparr>docs := apply_batch batch (docs w4)\<rparr>))))"

definition update_firebase :: "firestore_api \<Rightarrow> addr option \<Rightarrow> world \<Rightarrow> world" where
  "update_firebase api data_df w =
     (case data_df of
        None \<Rightarrow> print NoData w
      | Some a \<Rightarrow>
          if df_empty (frames w a) then print NoData w
          else if KEY_COLUMN \<notin> set (columns (frames w a)) then
            print (AvailableColumns (columns (frames w a)))
              (print (KeyColumnNotFound KEY_COLUMN) w)
          else update_firebase_try api a (print (Connecting FIRESTORE_COLLECTION) w))"

section \<open>Row records, documents and batches as the specification names them\<close>

text \<open>The row record of a row: its cells under the column labels of its table.\<close>

definition row_record :: "dataframe \<Rightarrow> cell list \<Rightarrow> document" where
  "row_record df r = py_dict (zip (columns df) r)"

text \<open>A record with every missing value replaced by the empty string.\<close>

definition normalized :: "document \<Rightarrow> document" where
  "normalized record = map (\<lambda>(k, v). (k, if v = NaN then Str [] else v)) record"

definition body_of :: "dataframe \<Rightarrow> cell list \<Rightarrow> document" where
  "body_of df r = normalized (row_record df r)"

definition bodies :: "dataframe \<Rightarrow> document list" where
  "bodies df = map (body_of df) (rows df)"

text \<open>
  The document ID that the writer passes for a record that has the key column: the string
  form of its value there. (On a record without it the source raises, which \<open>stage\<close>
  models.) The reference is the path that the client makes of that ID.
\<close>

definition doc_id_of :: "document \<Rightarrow> string" where
  "doc_id_of record = py_str (the (map_of record KEY_COLUMN))"

definition doc_ref_of :: "document \<Rightarrow> doc_ref" where
  "doc_ref_of record = split_slash (join_slash [FIRESTORE_COLLECTION, doc_id_of record])"

definition write_of :: "document \<Rightarrow> doc_ref \<times> document" where
  "write_of record = (doc_ref_of record, record)"

definition set_of :: "document \<Rightarrow> api_call" where
  "set_of record = BatchSet (doc_ref_of record) record"

definition batch_of :: "dataframe \<Rightarrow> (doc_ref \<times> document) list" where
  "batch_of df = map write_of (bodies df)"

text \<open>
  No call that writing this batch takes raises: not the client, not the reference or the
  \<^verbatim>\<open>batch.set\<close> of any operation, not the commit.
\<close>

definition accepts :: "firestore_api \<Rightarrow> (doc_ref \<times> document) list \<Rightarrow> bool" where
  "accepts api batch \<longleftrightarrow>
     client_error api = None \<and>
     list_all (\<lambda>(ref, doc). even (length ref) \<and> set_error api ref doc = None) batch \<and>
     commit_error api batch = None"


text \<open>An address that holds a table of the process, where a table is passed at all.\<close>

definition allocated :: "addr option \<Rightarrow> world \<Rightarrow> bool" where
  "allocated data_df w \<longleftrightarrow> (case data_df of None \<Rightarrow> True | Some a \<Rightarrow> a < next_frame w)"

text \<open>
  What is asked of the parser's typing of a column: one cell per text, missing exactly
  where the text was read as missing.
\<close>

definition keeps_missing :: "table_parser \<Rightarrow> bool" where
  "keeps_missing p \<longleftrightarrow>
     (\<forall>col. length (typing p col) = length col \<and>
            (\<forall>i<length col. isna (typing p col ! i) \<longleftrightarrow> col ! i = None))"

text \<open>The rows of a sheet's data that have a text not read as missing.\<close>

definition kept_rows :: "string list list \<Rightarrow> nat list" where
  "kept_rows data = filter (\<lambda>i. \<not> list_all (\<lambda>t. t \<in> set na_values) (data ! i)) [0..<length data]"

section \<open>Concrete services, states and tables\<close>

text \<open>
  A store that is reachable and refuses nothing, with the one check that the client makes
  when an operation is staged: an integer of a body has to fit 64 bits.
\<close>

definition int64 :: "cell \<Rightarrow> bool" where
  "int64 c = (case c of Num i \<Rightarrow> - (2 ^ 63) \<le> i \<and> i < 2 ^ 63 | _ \<Rightarrow> True)"

definition reliable :: firestore_api where
  "reliable =
     \<lparr>client_error = None,
      set_error = (\<lambda>doc_ref body. if list_all (\<lambda>(k, v). int64 v) body then None
                      else Some (ValueError ''integer out of range'')),
      commit_error = (\<lambda>batch. None)\<rparr>"

text \<open>The same store when the service refuses every commit.\<close>

definition refusing :: firestore_api where
  "refusing = reliable\<lparr>commit_error := (\<lambda>batch. Some (ServiceError ''commit refused''))\<rparr>"

text \<open>A process with no table yet, an empty database, no call made and nothing printed.\<close>

definition fresh_world :: world where
  "fresh_world = \<lparr>frames = (\<lambda>a. \<lparr>columns = [], rows = []\<rparr>), next_frame = 0,
                   docs = Map.empty, api_calls = [], stdout = []\<rparr>"

text \<open>The same with one table, at address 0.\<close>

definition holding :: "dataframe \<Rightarrow> world" where
  "holding df = fresh_world\<lparr>frames := (frames fresh_world)(0 := df), next_frame := 1\<rparr>"

text \<open>A spreadsheet service whose configured worksheet holds the given cell texts.\<close>

definition spreadsheet_with :: "sheet \<Rightarrow> spreadsheet" where
  "spreadsheet_with ws =
     (\<lambda>tab. if tab = WORKSHEET_NAME then Inr (Inr ws)
            else Inl (ServiceError ''WorksheetNotFound''))"

definition serving :: "sheet \<Rightarrow> gspread_client" where
  "serving ws =
     (\<lambda>name. if name = GOOGLE_SHEET_NAME then Inr (spreadsheet_with ws)
             else Inl (ServiceError ''SpreadsheetNotFound''))"

text \<open>
  The parser on the two kinds of column that the sheets below have. The header row gives
  the labels as they are (distinct, none blank). A column whose texts, where not missing,
  are all integer literals of at most 15 digits is a column of numbers: integers when no
  cell is missing, floats when one is (\<^verbatim>\<open>1\<close> becomes \<^verbatim>\<open>1.0\<close>). Any other column is taken as
  a column of strings, which is what the parser does when some text is neither a number nor
  a boolean.
\<close>

fun nat_of_digits :: "nat \<Rightarrow> string \<Rightarrow> nat option" where
  "nat_of_digits acc [] = Some acc"
| "nat_of_digits acc (c # cs) =
     (case map_of (zip ''0123456789'' [0, 1, 2, 3, 4, 5, 6, 7, 8, 9]) c of
        None \<Rightarrow> None
      | Some d \<Rightarrow> nat_of_digits (10 * acc + d) cs)"

definition int_literal :: "string \<Rightarrow> nat option" where
  "int_literal t = (if t = [] \<or> 15 < length t then None else nat_of_digits 0 t)"

definition int_column :: "string option list \<Rightarrow> bool" where
  "int_column col \<longleftrightarrow>
     list_ex (\<lambda>c. c \<noteq> None) col \<and>
     list_all (\<lambda>c. case c of None \<Rightarrow> True | Some t \<Rightarrow> int_literal t \<noteq> None) col"

definition typed_cell :: "bool \<Rightarrow> bool \<Rightarrow> string option \<Rightarrow> cell" where
  "typed_cell numbers floats c =
     (case c of
        None \<Rightarrow> NaN
      | Some t \<Rightarrow>
          (case int_literal t of
             None \<Rightarrow> Str t
           | Some n \<Rightarrow>
               if \<not> numbers then Str t
               else if floats then Flt (str_nat n @ ''.0'')
               else Num (int n)))"

definition int_or_text :: table_parser where
  "int_or_text =
     \<lparr>labels = (\<lambda>header. header),
      typing = (\<lambda>col. map (typed_cell (int_column col) (list_ex (\<lambda>c. c = None) col)) col)\<rparr>"

text \<open>
  The sheet of the example in the specification: columns \<^verbatim>\<open>pick_id\<close> and \<^verbatim>\<open>team\<close>, and
  four rows, the third of them empty. \<open>example_run\<close> is the reader and then the writer on it,
  as the main block runs them.
\<close>

definition example_sheet :: sheet where
  "example_sheet =
     [[''pick_id'', ''team''], [''1'', ''A''], [''2'', []], [[], []], [''3'', []]]"

definition example_run :: world where
  "example_run =
     update_firebase reliable
       (fst (fetch_sheet_data int_or_text (serving example_sheet) fresh_world))
       (snd (fetch_sheet_data int_or_text (serving example_sheet) fresh_world))"

text \<open>A sheet whose second row holds texts, all of which the parser reads as missing.\<close>

definition na_text_sheet :: sheet where
  "na_text_sheet =
     [[''pick_id'', ''team''], [''x'', ''A''], [''NA'', ''n/a''], [''y'', ''B'']]"

text \<open>Tables for the cases the claims distinguish.\<close>

definition empty_table :: dataframe where
  "empty_table = \<lparr>columns = [''pick_id'', ''team''], rows = []\<rparr>"

definition unique_keys :: dataframe where
  "unique_keys =
     \<lparr>columns = [''pick_id'', ''team''], rows = [[Num 7, Str ''A''], [Str ''x'', NaN]]\<rparr>"

definition mixed_keys :: dataframe where
  "mixed_keys =
     \<lparr>columns = [''pick_id'', ''team''], rows = [[Num 1, Str ''A''], [Str ''1'', Str ''B'']]\<rparr>"

definition no_key_table :: dataframe where
  "no_key_table = \<lparr>columns = [''game_id'', ''team''], rows = [[Str ''1'', Str ''A'']]\<rparr>"

definition missing_key_cell :: dataframe where
  "missing_key_cell =
     \<lparr>columns = [''pick_id'', ''team''], rows = [[Str ''1'', Str ''A''], [NaN, Str ''B'']]\<rparr>"

definition duplicate_keys :: dataframe where
  "duplicate_keys =
     \<lparr>columns = [''pick_id'', ''team''],
      rows = [[Str ''1'', Str ''A''], [Str ''2'', Str ''B''], [Str ''1'', Str ''C'']]\<rparr>"

definition big_int_rows :: dataframe where
  "big_int_rows =
     \<lparr>columns = [''pick_id'', ''stake''],
      rows = [[Str ''1'', Num 5], [Str ''1'', Num (2 ^ 63)]]\<rparr>"


section \<open>Dicts built from rows\<close>

lemma update_map_values:
  "map (\<lambda>(k, v). (k, f v)) (AList.update k v al) = AList.update k (f v) (map (\<lambda>(k, v). (k, f v)) al)"
  by (induction al) auto

lemma fold_update_map_values:
  "fold (\<lambda>(k, v). AList.update k v) (map (\<lambda>(k, v). (k, f v)) kvs) (map (\<lambda>(k, v). (k, f v)) acc)
     = map (\<lambda>(k, v). (k, f v)) (fold (\<lambda>(k, v). AList.update k v) kvs acc)"
proof (induction kvs arbitrary: acc)
  case Nil
  show ?case by simp
next
  case (Cons p kvs)
  obtain k v where p: "p = (k, v)" by (cases p)
  show ?case
    using Cons [of "AList.update k v acc"] by (simp add: p update_map_values)
qed

lemma py_dict_map_values:
  "py_dict (map (\<lambda>(k, v). (k, f v)) kvs) = map (\<lambda>(k, v). (k, f v)) (py_dict kvs)"
  using fold_update_map_values [of f kvs "[]"] by (simp add: py_dict_def)

lemma zip_map_values: "zip cs (map f r) = map (\<lambda>(k, v). (k, f v)) (zip cs r)"
  by (induction cs arbitrary: r) (auto simp: zip_Cons1 split: list.splits) 

lemma to_dict_records_fillna:
  "to_dict_records (fillna_cells (Str []) df) = bodies df"
  by (simp add: to_dict_records_def fillna_cells_def bodies_def body_of_def normalized_def row_record_def
      zip_map_values py_dict_map_values fillna_value_def isna_def)

lemma keys_fold_update:
  "fst ` set (fold (\<lambda>(k, v). AList.update k v) kvs acc) = fst ` set kvs \<union> fst ` set acc"
proof (induction kvs arbitrary: acc)
  case Nil
  show ?case by simp
next
  case (Cons p kvs)
  obtain k v where p: "p = (k, v)" by (cases p)
  have "fst ` set (fold (\<lambda>(k, v). AList.update k v) kvs (AList.update k v acc))
          = fst ` set kvs \<union> ({k} \<union> fst ` set acc)"
    by (simp add: Cons AList.dom_update)
  then show ?case by (simp add: p)
qed

lemma keys_py_dict: "fst ` set (py_dict kvs) = fst ` set kvs"
  by (simp add: py_dict_def keys_fold_update)

lemma keys_row_record:
  "length r = length (columns df) \<Longrightarrow> fst ` set (row_record df r) = set (columns df)"
proof -
  assume "length r = length (columns df)"
  then have "map fst (zip (columns df) r) = columns df" by simp
  then have "set (map fst (zip (columns df) r)) = set (columns df)" by simp
  then show ?thesis by (simp add: row_record_def keys_py_dict)
qed

lemma keys_normalized: "fst ` set (normalized record) = fst ` set record"
  by (force simp: normalized_def)

lemma has_key_body:
  assumes "length r = length (columns df)" and "KEY_COLUMN \<in> set (columns df)"
  shows "\<exists>v. map_of (normalized (row_record df r)) KEY_COLUMN = Some v"
proof -
  have "KEY_COLUMN \<in> fst ` set (normalized (row_record df r))"
    using assms by (simp add: keys_normalized keys_row_record)
  then have "map_of (normalized (row_record df r)) KEY_COLUMN \<noteq> None"
    by (simp add: map_of_eq_None_iff)
  then show ?thesis by blast
qed

section \<open>The staging loop\<close>

lemma stage_frame:
  "frames (snd (stage api records batch w)) = frames w \<and>
   next_frame (snd (stage api records batch w)) = next_frame w \<and>
   docs (snd (stage api records batch w)) = docs w \<and>
   stdout (snd (stage api records batch w)) = stdout w"
  by (induction records arbitrary: batch w)
    (simp_all add: call_def Let_def split: option.splits sum.splits)

lemma stage_result_indep:
  "fst (stage api records batch w) = fst (stage api records batch w')"
  by (induction records arbitrary: batch w w')
    (simp_all add: Let_def split: option.splits sum.splits)

lemma stage_success:
  assumes "\<forall>record\<in>set records.
             map_of record KEY_COLUMN \<noteq> None \<and> even (length (doc_ref_of record)) \<and>
             set_error api (doc_ref_of record) record = None"
  shows "stage api records batch w =
           (Inr (batch @ map write_of records),
            w\<lparr>api_calls := api_calls w @ map set_of records\<rparr>)"
  using assms
proof (induction records arbitrary: batch w)
  case Nil
  show ?case by simp
next
  case (Cons rec recs)
  from Cons.prems obtain v where v: "map_of rec KEY_COLUMN = Some v" by auto
  have id: "doc_id_of rec = py_str v"
    using v by (simp add: doc_id_of_def)
  from Cons.prems have d: "document (py_str v) = Inr (doc_ref_of rec)"
    by (simp add: document_def doc_ref_of_def id Let_def)
  from Cons.prems have s: "set_error api (doc_ref_of rec) rec = None"
    by simp
  from Cons.prems have rest: "\<forall>record\<in>set recs.
      map_of record KEY_COLUMN \<noteq> None \<and> even (length (doc_ref_of record)) \<and>
      set_error api (doc_ref_of record) record = None"
    by simp
  show ?case
    by (simp add: v d s Cons.IH [OF rest] call_def write_of_def set_of_def Let_def)
qed


section \<open>Committing a batch\<close>

lemma apply_batch_snoc:
  "apply_batch (batch @ [(ref, doc)]) store = (apply_batch batch store)(ref \<mapsto> doc)"
  by (simp add: apply_batch_def)

lemma apply_batch_other:
  "ref \<notin> fst ` set batch \<Longrightarrow> apply_batch batch store ref = store ref"
  by (induction batch rule: rev_induct) (auto simp: apply_batch_snoc apply_batch_def)

lemma apply_batch_last:
  assumes "i < length batch"
    and "\<forall>j. i < j \<and> j < length batch \<longrightarrow> fst (batch ! j) \<noteq> fst (batch ! i)"
  shows "apply_batch batch store (fst (batch ! i)) = Some (snd (batch ! i))"
  using assms
proof (induction batch rule: rev_induct)
  case Nil
  then show ?case by simp
next
  case (snoc x batch)
  obtain ref doc where x: "x = (ref, doc)" by (cases x)
  show ?case
  proof (cases "i < length batch")
    case True
    have later: "\<forall>j. i < j \<and> j < length batch \<longrightarrow> fst (batch ! j) \<noteq> fst (batch ! i)"
    proof (intro allI impI)
      fix j assume j: "i < j \<and> j < length batch"
      then have "fst ((batch @ [x]) ! j) \<noteq> fst ((batch @ [x]) ! i)"
        using snoc.prems(2) by simp
      then show "fst (batch ! j) \<noteq> fst (batch ! i)"
        using j True by (simp add: nth_append)
    qed
    have "fst ((batch @ [x]) ! length batch) \<noteq> fst ((batch @ [x]) ! i)"
      using snoc.prems(2) [rule_format, of "length batch"] True by simp
    then have ne: "ref \<noteq> fst (batch ! i)"
      using True by (simp add: nth_append x)
    show ?thesis
      using snoc.IH [OF True later] True ne by (simp add: x apply_batch_snoc nth_append)
  next
    case False
    with snoc.prems(1) have "i = length batch" by simp
    then show ?thesis by (simp add: x apply_batch_snoc)
  qed
qed

lemma apply_batch_conv: "apply_batch batch store = store ++ map_of (rev batch)"
proof (induction batch rule: rev_induct)
  case Nil
  show ?case by (simp add: apply_batch_def)
next
  case (snoc x batch)
  obtain ref doc where x: "x = (ref, doc)" by (cases x)
  show ?case
    by (rule ext) (simp add: x apply_batch_snoc snoc.IH map_add_def)
qed

lemma apply_batch_idem:
  "apply_batch batch (apply_batch batch store) = apply_batch batch store"
  by (rule ext) (simp add: apply_batch_conv map_add_def split: option.splits)

section \<open>Runs of the store writer\<close>

lemma bodies_have_key:
  assumes "wf_df df" and "KEY_COLUMN \<in> set (columns df)" and "body \<in> set (bodies df)"
  shows "\<exists>v. map_of body KEY_COLUMN = Some v"
proof -
  from assms(3) obtain r where r: "r \<in> set (rows df)" and body: "body = normalized (row_record df r)"
    by (auto simp: bodies_def body_of_def)
  from assms(1) r have "length r = length (columns df)"
    by (simp add: wf_df_def list_all_iff)
  then show ?thesis
    using has_key_body [of r df] assms(2) by (simp add: body)
qed

lemma accepts_document:
  assumes "accepts api (batch_of df)" and "body \<in> set (bodies df)"
  shows "even (length (doc_ref_of body)) \<and> set_error api (doc_ref_of body) body = None"
  using assms by (auto simp: accepts_def batch_of_def write_of_def list_all_iff)

lemma update_firebase_try_ok:
  assumes "wf_df (frames w a)" and "KEY_COLUMN \<in> set (columns (frames w a))"
    and "accepts api (batch_of (frames w a))"
  shows "update_firebase_try api a w =
           w\<lparr>frames := (frames w)(next_frame w := fillna_cells (Str []) (frames w a)),
             next_frame := Suc (next_frame w),
             docs := apply_batch (batch_of (frames w a)) (docs w),
             api_calls := api_calls w @ map set_of (bodies (frames w a)) @ [BatchCommit],
             stdout := stdout w @ [Preparing (length (rows (frames w a))), UpdateComplete]\<rparr>"
proof -
  let ?T = "frames w a"
  have c: "client_error api = None" and m: "commit_error api (map write_of (bodies ?T)) = None"
    using assms(3) by (simp_all add: accepts_def batch_of_def)
  have ok: "\<forall>record\<in>set (bodies ?T).
      map_of record KEY_COLUMN \<noteq> None \<and> even (length (doc_ref_of record)) \<and>
      set_error api (doc_ref_of record) record = None"
    using bodies_have_key [OF assms(1,2)] accepts_document [OF assms(3)] by fastforce
  have len: "length (bodies ?T) = length (rows ?T)"
    by (simp add: bodies_def)
  show ?thesis
    by (simp add: update_firebase_try_def c fillna_def new_frame_def to_dict_records_fillna
        stage_success [OF ok] m print_def call_def len batch_of_def Let_def)
qed

lemma update_firebase_ok:
  assumes "rows (frames w a) \<noteq> []" and "wf_df (frames w a)"
    and "KEY_COLUMN \<in> set (columns (frames w a))"
    and "accepts api (batch_of (frames w a))"
  shows "update_firebase api (Some a) w =
           w\<lparr>frames := (frames w)(next_frame w := fillna_cells (Str []) (frames w a)),
             next_frame := Suc (next_frame w),
             docs := apply_batch (batch_of (frames w a)) (docs w),
             api_calls := api_calls w @ map set_of (bodies (frames w a)) @ [BatchCommit],
             stdout := stdout w @ [Connecting FIRESTORE_COLLECTION,
                                   Preparing (length (rows (frames w a))), UpdateComplete]\<rparr>"
proof -
  let ?w = "print (Connecting FIRESTORE_COLLECTION) w"
  have ne: "\<not> df_empty (frames w a)"
    using assms(1,3) by (auto simp: df_empty_def)
  have f: "frames ?w = frames w" by (simp add: print_def)
  have "update_firebase api (Some a) w = update_firebase_try api a ?w"
    using ne assms(3) by (simp add: update_firebase_def)
  also have "\<dots> = ?w\<lparr>frames := (frames ?w)(next_frame ?w := fillna_cells (Str []) (frames ?w a)),
             next_frame := Suc (next_frame ?w),
             docs := apply_batch (batch_of (frames ?w a)) (docs ?w),
             api_calls := api_calls ?w @ map set_of (bodies (frames ?w a)) @ [BatchCommit],
             stdout := stdout ?w @ [Preparing (length (rows (frames ?w a))), UpdateComplete]\<rparr>"
    using assms(2-4) by (intro update_firebase_try_ok) (simp_all add: f)
  finally show ?thesis by (simp add: print_def)
qed

lemma update_firebase_no_key:
  assumes "\<not> df_empty (frames w a)" and "KEY_COLUMN \<notin> set (columns (frames w a))"
  shows "update_firebase api (Some a) w =
           w\<lparr>stdout := stdout w @ [KeyColumnNotFound KEY_COLUMN,
                                   AvailableColumns (columns (frames w a))]\<rparr>"
  using assms by (simp add: update_firebase_def print_def)

lemma update_firebase_try_frames:
  "frames (update_firebase_try api a w) = frames w \<or>
   frames (update_firebase_try api a w) =
     (frames w)(next_frame w := fillna_cells (Str []) (frames w a))"
proof (cases "client_error api")
  case (Some e)
  then show ?thesis by (simp add: update_firebase_try_def print_def)
next
  case None
  let ?w1 = "w\<lparr>frames := (frames w)(next_frame w := fillna_cells (Str []) (frames w a)),
               next_frame := Suc (next_frame w)\<rparr>"
  let ?recs = "to_dict_records (fillna_cells (Str []) (frames w a))"
  let ?w2 = "print (Preparing (length ?recs)) ?w1"
  obtain res w3 where st: "stage api ?recs [] ?w2 = (res, w3)"
    by (cases "stage api ?recs [] ?w2")
  have "frames w3 = frames ?w2"
    using stage_frame [of api ?recs "[]" ?w2] by (simp add: st)
  then have f3: "frames w3 = (frames w)(next_frame w := fillna_cells (Str []) (frames w a))"
    by (simp add: print_def)
  have "frames (update_firebase_try api a w) = frames w3"
    using st
    by (simp add: update_firebase_try_def None fillna_def new_frame_def Let_def print_def call_def
        split: sum.splits option.splits)
  then show ?thesis by (simp add: f3)
qed

lemma update_firebase_frames:
  assumes "a' < next_frame w"
  shows "frames (update_firebase api data_df w) a' = frames w a'"
proof (cases data_df)
  case None
  then show ?thesis by (simp add: update_firebase_def print_def)
next
  case (Some a)
  let ?w = "print (Connecting FIRESTORE_COLLECTION) w"
  have n: "next_frame ?w = next_frame w" and f: "frames ?w = frames w"
    by (simp_all add: print_def)
  have "frames (update_firebase_try api a ?w) a' = frames ?w a'"
    using update_firebase_try_frames [of api a ?w] assms n by auto
  then show ?thesis
    by (simp add: Some update_firebase_def f) (simp add: print_def)
qed



lemma update_firebase_try_docs:
  "docs (update_firebase_try api a w) =
     (case client_error api of
        Some e \<Rightarrow> docs w
      | None \<Rightarrow>
          (case fst (stage api (to_dict_records (fillna_cells (Str []) (frames w a))) [] w0) of
             Inl e \<Rightarrow> docs w
           | Inr batch \<Rightarrow>
               (case commit_error api batch of
                  Some e \<Rightarrow> docs w
                | None \<Rightarrow> apply_batch batch (docs w))))"
proof (cases "client_error api")
  case (Some e)
  then show ?thesis by (simp add: update_firebase_try_def print_def)
next
  case None
  let ?w1 = "w\<lparr>frames := (frames w)(next_frame w := fillna_cells (Str []) (frames w a)),
               next_frame := Suc (next_frame w)\<rparr>"
  let ?recs = "to_dict_records (fillna_cells (Str []) (frames w a))"
  let ?w2 = "print (Preparing (length ?recs)) ?w1"
  obtain res w3 where st: "stage api ?recs [] ?w2 = (res, w3)"
    by (cases "stage api ?recs [] ?w2")
  have res: "fst (stage api ?recs [] w0) = res"
    using stage_result_indep [of api ?recs "[]" w0 ?w2] by (simp add: st)
  have "docs w3 = docs ?w2"
    using stage_frame [of api ?recs "[]" ?w2] by (simp add: st)
  then have d3: "docs w3 = docs w" by (simp add: print_def)
  show ?thesis
    using st d3
    by (simp add: update_firebase_try_def None fillna_def new_frame_def Let_def print_def call_def
        res split: sum.splits option.splits)
qed

lemma update_firebase_docs:
  "docs (update_firebase api (Some a) w) =
     (if df_empty (frames w a) \<or> KEY_COLUMN \<notin> set (columns (frames w a)) then docs w
      else case client_error api of
        Some e \<Rightarrow> docs w
      | None \<Rightarrow>
          (case fst (stage api (to_dict_records (fillna_cells (Str []) (frames w a))) [] w0) of
             Inl e \<Rightarrow> docs w
           | Inr batch \<Rightarrow>
               (case commit_error api batch of
                  Some e \<Rightarrow> docs w
                | None \<Rightarrow> apply_batch batch (docs w))))"
proof -
  let ?w = "print (Connecting FIRESTORE_COLLECTION) w"
  have f: "frames ?w = frames w" and d: "docs ?w = docs w" by (simp_all add: print_def)
  have t: "update_firebase api (Some a) w = update_firebase_try api a ?w"
    if "\<not> (df_empty (frames w a) \<or> KEY_COLUMN \<notin> set (columns (frames w a)))"
    using that by (simp add: update_firebase_def)
  show ?thesis
  proof (cases "df_empty (frames w a) \<or> KEY_COLUMN \<notin> set (columns (frames w a))")
    case True
    then show ?thesis by (auto simp: update_firebase_def print_def)
  next
    case False
    show ?thesis
      unfolding t [OF False] update_firebase_try_docs [of api a ?w w0] f d
      using False by simp
  qed
qed

lemma update_firebase_twice_docs:
  assumes "a < next_frame w"
  shows "docs (update_firebase api (Some a) (update_firebase api (Some a) w)) =
         docs (update_firebase api (Some a) w)"
proof -
  let ?w1 = "update_firebase api (Some a) w"
  have same: "frames ?w1 a = frames w a"
    using assms by (rule update_firebase_frames)
  show ?thesis
    unfolding update_firebase_docs [of api a ?w1 w] same
    unfolding update_firebase_docs [of api a w w]
    by (simp add: apply_batch_idem split: option.splits sum.splits)
qed

section \<open>Document paths\<close>

lemma split_slash_not_Nil: "split_slash s \<noteq> []"
  by (induction s) (auto split: list.splits)

lemma join_slash_Cons_char: "ps \<noteq> [] \<Longrightarrow> join_slash ((c # hd ps) # tl ps) = c # join_slash ps"
  by (cases ps rule: join_slash.cases) auto

lemma join_split_slash: "join_slash (split_slash s) = s"
proof (induction s)
  case Nil
  show ?case by simp
next
  case (Cons c s)
  obtain p ps where ps: "split_slash s = p # ps"
    using split_slash_not_Nil [of s] by (cases "split_slash s") auto
  show ?case
  proof (cases "c = CHR ''/''")
    case True
    then show ?thesis using Cons ps by simp
  next
    case False
    have "join_slash ((c # p) # ps) = c # join_slash (p # ps)"
      using join_slash_Cons_char [of "p # ps" c] by simp
    then show ?thesis using False Cons ps by simp
  qed
qed

lemma split_slash_inject: "split_slash a = split_slash b \<Longrightarrow> a = b"
  by (metis join_split_slash)

lemma split_slash_plain: "CHR ''/'' \<notin> set s \<Longrightarrow> split_slash s = [s]"
  by (induction s) auto

lemma split_slash_append:
  "split_slash (a @ CHR ''/'' # b) = split_slash a @ split_slash b"
proof (induction a)
  case Nil
  show ?case by simp
next
  case (Cons c a)
  obtain p ps where ps: "split_slash a = p # ps"
    using split_slash_not_Nil [of a] by (cases "split_slash a") auto
  show ?case using Cons ps by simp
qed

lemma collection_plain: "split_slash FIRESTORE_COLLECTION = [FIRESTORE_COLLECTION]"
  by (rule split_slash_plain) (simp add: FIRESTORE_COLLECTION_def)

lemma doc_ref_of_path: "doc_ref_of record = FIRESTORE_COLLECTION # split_slash (doc_id_of record)"
  by (simp add: doc_ref_of_def split_slash_append collection_plain)

lemma doc_ref_of_plain:
  "CHR ''/'' \<notin> set (doc_id_of record) \<Longrightarrow>
     doc_ref_of record = [FIRESTORE_COLLECTION, doc_id_of record]"
  by (simp add: doc_ref_of_path split_slash_plain)

lemma doc_ref_of_inject: "doc_ref_of a = doc_ref_of b \<Longrightarrow> doc_id_of a = doc_id_of b"
  by (simp add: doc_ref_of_path split_slash_inject)


section \<open>Reading a sheet\<close>

lemma int_or_text_keeps_missing: "keeps_missing int_or_text"
  by (auto simp: keeps_missing_def int_or_text_def typed_cell_def isna_def
      split: option.splits)

lemma parsed_row_all_missing:
  assumes "keeps_missing p" and "i < length data" and "length (data ! i) = length header"
  shows "list_all isna
           (map (\<lambda>j. typing p (map (\<lambda>r. read_text (r ! j)) data) ! i) [0..<length header]) \<longleftrightarrow>
         list_all (\<lambda>t. t \<in> set na_values) (data ! i)"
proof -
  have cell: "isna (typing p (map (\<lambda>r. read_text (r ! j)) data) ! i) \<longleftrightarrow>
      data ! i ! j \<in> set na_values" for j
  proof -
    let ?col = "map (\<lambda>r. read_text (r ! j)) data"
    have "isna (typing p ?col ! i) \<longleftrightarrow> ?col ! i = None"
      using assms(1,2) by (simp add: keeps_missing_def)
    also have "\<dots> \<longleftrightarrow> data ! i ! j \<in> set na_values"
      using assms(2) by (simp add: read_text_def)
    finally show ?thesis .
  qed
  show ?thesis
    using assms(3) by (simp add: list_all_length cell)
qed

lemma dropna_parsed_rows:
  assumes "keeps_missing p" and "list_all (\<lambda>r. length r = length header) data"
  shows "rows (dropna_rows (get_as_dataframe p (header # data))) =
           map (\<lambda>i. rows (get_as_dataframe p (header # data)) ! i) (kept_rows data)"
proof -
  let ?f = "\<lambda>i. map (\<lambda>j. typing p (map (\<lambda>r. read_text (r ! j)) data) ! i) [0..<length header]"
  have rows: "rows (get_as_dataframe p (header # data)) = map ?f [0..<length data]"
    by (simp add: get_as_dataframe_def)
  have keep: "(\<not> list_all isna (?f i)) = (\<not> list_all (\<lambda>t. t \<in> set na_values) (data ! i))"
    if "i \<in> set [0..<length data]" for i
  proof -
    from that have i: "i < length data" by simp
    with assms(2) have "length (data ! i) = length header"
      by (simp add: list_all_length)
    from parsed_row_all_missing [OF assms(1) i this] show ?thesis by simp
  qed
  have "filter (\<lambda>r. \<not> list_all isna r) (map ?f [0..<length data]) =
        map ?f (filter (\<lambda>i. \<not> list_all isna (?f i)) [0..<length data])"
    by (simp add: filter_map comp_def)
  also have "\<dots> = map ?f (kept_rows data)"
    unfolding kept_rows_def using keep by (metis (mono_tags, lifting) filter_cong)
  also have "\<dots> = map (\<lambda>i. map ?f [0..<length data] ! i) (kept_rows data)"
    by (rule map_cong) (auto simp: kept_rows_def)
  finally show ?thesis by (simp add: dropna_rows_def rows)
qed

section \<open>The claims\<close>

text \<open>
  C6. When the table passed to the store writer is absent (\<^verbatim>\<open>None\<close>) or empty, the run
  changes no document, makes no batch call, and prints the one line that there is no data:
  no error is reported.
\<close>

theorem empty_or_absent_table_is_noop:
  assumes "case data_df of None \<Rightarrow> True | Some a \<Rightarrow> df_empty (frames w a)"
  shows "docs (update_firebase api data_df w) = docs w \<and>
         api_calls (update_firebase api data_df w) = api_calls w \<and>
         stdout (update_firebase api data_df w) = stdout w @ [NoData]"
  using assms by (cases data_df) (simp_all add: update_firebase_def print_def)

theorem empty_or_absent_table_is_noop_witness:
  "df_empty (frames (holding empty_table) 0) \<and>
   docs (update_firebase reliable (Some 0) (holding empty_table)) = Map.empty \<and>
   api_calls (update_firebase reliable (Some 0) (holding empty_table)) = [] \<and>
   stdout (update_firebase reliable (Some 0) (holding empty_table)) = [NoData]"
proof -
  have h: "case Some (0::nat) of None \<Rightarrow> True | Some a \<Rightarrow> df_empty (frames (holding empty_table) a)"
    by (simp add: holding_def fresh_world_def empty_table_def df_empty_def)
  show ?thesis
    using h empty_or_absent_table_is_noop [OF h, of reliable]
    by (simp add: holding_def fresh_world_def)
qed

text \<open>
  C3. For a table that is not empty (\<^verbatim>\<open>data_df.empty\<close> is false) and whose columns do
  not include the key column, the store writer changes no document and makes no batch call
  (nothing is staged, nothing committed), and prints the error that names the key column
  followed by the list of the columns found.
\<close>

theorem missing_key_column_is_reported:
  assumes "\<not> df_empty (frames w a)" and "KEY_COLUMN \<notin> set (columns (frames w a))"
  shows "docs (update_firebase api (Some a) w) = docs w \<and>
         api_calls (update_firebase api (Some a) w) = api_calls w \<and>
         stdout (update_firebase api (Some a) w) =
           stdout w @ [KeyColumnNotFound KEY_COLUMN, AvailableColumns (columns (frames w a))]"
  by (simp add: update_firebase_no_key [OF assms])

theorem missing_key_column_is_reported_witness:
  "docs (update_firebase reliable (Some 0) (holding no_key_table)) = Map.empty \<and>
   api_calls (update_firebase reliable (Some 0) (holding no_key_table)) = [] \<and>
   stdout (update_firebase reliable (Some 0) (holding no_key_table)) =
     [KeyColumnNotFound ''pick_id'', AvailableColumns [''game_id'', ''team'']]"
proof -
  have h1: "\<not> df_empty (frames (holding no_key_table) 0)"
    by (simp add: holding_def fresh_world_def no_key_table_def df_empty_def)
  have h2: "KEY_COLUMN \<notin> set (columns (frames (holding no_key_table) 0))"
    by (simp add: holding_def fresh_world_def no_key_table_def KEY_COLUMN_def)
  show ?thesis
    using missing_key_column_is_reported [OF h1 h2, of reliable]
    by (simp add: holding_def fresh_world_def no_key_table_def KEY_COLUMN_def)
qed

text \<open>
  C9. The store writer does not change the table it is given: the object at the caller's
  address holds the same table, missing cells included, after \<open>update_firebase\<close> as
  before (\<open>fillna\<close> writes its result to a new address).
\<close>

theorem input_table_not_mutated:
  assumes "a < next_frame w"
  shows "frames (update_firebase api (Some a) w) a = frames w a"
  using assms by (rule update_firebase_frames)

theorem input_table_not_mutated_witness:
  "(0::nat) < next_frame (holding missing_key_cell) \<and>
   frames (update_firebase reliable (Some 0) (holding missing_key_cell)) 0 =
     \<lparr>columns = [''pick_id'', ''team''], rows = [[Str ''1'', Str ''A''], [NaN, Str ''B'']]\<rparr>"
proof -
  have h: "(0::nat) < next_frame (holding missing_key_cell)"
    by (simp add: holding_def fresh_world_def)
  show ?thesis
    using h input_table_not_mutated [OF h, of reliable]
    by (simp add: holding_def fresh_world_def missing_key_cell_def)
qed

text \<open>
  C5. Running the store writer a second time on the same table, against the same store
  behaviour, leaves the documents exactly as the first run left them.
\<close>

theorem second_run_changes_no_document:
  assumes "allocated data_df w"
  shows "docs (update_firebase api data_df (update_firebase api data_df w)) =
         docs (update_firebase api data_df w)"
proof (cases data_df)
  case None
  then show ?thesis by (simp add: update_firebase_def print_def)
next
  case (Some a)
  with assms have "a < next_frame w" by (simp add: allocated_def)
  then show ?thesis
    unfolding Some by (rule update_firebase_twice_docs)
qed

theorem second_run_changes_no_document_witness:
  "allocated (Some 0) (holding duplicate_keys) \<and>
   docs (update_firebase reliable (Some 0)
          (update_firebase reliable (Some 0) (holding duplicate_keys))) =
   docs (update_firebase reliable (Some 0) (holding duplicate_keys))"
proof -
  have h: "allocated (Some 0) (holding duplicate_keys)"
    by (simp add: allocated_def holding_def fresh_world_def)
  show ?thesis
    using h second_run_changes_no_document [OF h, of reliable] by simp
qed

lemma run_missing_key_cell:
  "api_calls (update_firebase reliable (Some 0) (holding missing_key_cell)) =
     [BatchSet [''live_picks'', ''1''] [(''pick_id'', Str ''1''), (''team'', Str ''A'')],
      BatchSet [''live_picks'', []] [(''pick_id'', Str []), (''team'', Str ''B'')],
      BatchCommit]"
  by (simp add: update_firebase_def update_firebase_try_def holding_def fresh_world_def
      missing_key_cell_def df_empty_def KEY_COLUMN_def FIRESTORE_COLLECTION_def reliable_def
      print_def call_def fillna_def new_frame_def fillna_cells_def fillna_value_def isna_def
      to_dict_records_def py_dict_def Let_def document_def int64_def)

subsection \<open>The reference of a staged document\<close>





subsection \<open>The example sheet\<close>

lemma fetch_example:
  "fetch_sheet_data int_or_text (serving example_sheet) fresh_world =
     (Some 0,
      fresh_world
        \<lparr>frames := (frames fresh_world)
           (0 := \<lparr>columns = [''pick_id'', ''team''],
                  rows = [[Flt ''1.0'', Str ''A''], [Flt ''2.0'', NaN], [Flt ''3.0'', NaN]]\<rparr>),
         next_frame := 1,
         stdout := [OpeningSheet ''My_NFL_Betting_Data1'',
                    ReadingWorksheet ''live_picks_sheets'', Fetched 3]\<rparr>)"
  by (simp add: fetch_sheet_data_def serving_def spreadsheet_with_def example_sheet_def
      fresh_world_def dropna_def dropna_rows_def get_as_dataframe_def int_or_text_def
      typed_cell_def int_column_def int_literal_def read_text_def na_values_def
      GOOGLE_SHEET_NAME_def WORKSHEET_NAME_def print_def new_frame_def isna_def
      str_nat.simps upt_rec numeral_2_eq_2 numeral_3_eq_3)

lemma run_example:
  "api_calls example_run =
     [BatchSet [''live_picks'', ''1.0''] [(''pick_id'', Flt ''1.0''), (''team'', Str ''A'')],
      BatchSet [''live_picks'', ''2.0''] [(''pick_id'', Flt ''2.0''), (''team'', Str [])],
      BatchSet [''live_picks'', ''3.0''] [(''pick_id'', Flt ''3.0''), (''team'', Str [])],
      BatchCommit] \<and>
   docs example_run =
     [[''live_picks'', ''1.0''] \<mapsto> [(''pick_id'', Flt ''1.0''), (''team'', Str ''A'')],
      [''live_picks'', ''2.0''] \<mapsto> [(''pick_id'', Flt ''2.0''), (''team'', Str [])],
      [''live_picks'', ''3.0''] \<mapsto> [(''pick_id'', Flt ''3.0''), (''team'', Str [])]]"
  unfolding example_run_def fetch_example
  by (simp add: fresh_world_def update_firebase_def update_firebase_try_def df_empty_def
      KEY_COLUMN_def FIRESTORE_COLLECTION_def reliable_def apply_batch_def
      print_def call_def fillna_def new_frame_def fillna_cells_def fillna_value_def isna_def
      to_dict_records_def py_dict_def Let_def document_def int64_def)

text \<open>
  C2, as stated, fails. The sheet of the example has an empty row, so the parser reads its
  \<^verbatim>\<open>pick_id\<close> column as floats, and the writer keys the documents by \<^verbatim>\<open>"1.0"\<close>,
  \<^verbatim>\<open>"2.0"\<close> and \<^verbatim>\<open>"3.0"\<close>: there is no document \<^verbatim>\<open>"3"\<close>, and the third document has the
  field \<^verbatim>\<open>team\<close>, set to the empty string.
\<close>

theorem example_documents_counterexample:
  "docs example_run [''live_picks'', ''3''] = None \<and>
   docs example_run [''live_picks'', ''3.0''] =
     Some [(''pick_id'', Flt ''3.0''), (''team'', Str [])]"
  by (simp add: run_example)

text \<open>
  C2, amended. For that sheet exactly three documents are written, one \<^verbatim>\<open>batch.set\<close> each
  and then the commit: \<^verbatim>\<open>"1.0"\<close> with \<^verbatim>\<open>{pick_id: 1.0, team: "A"}\<close>, \<^verbatim>\<open>"2.0"\<close> with
  \<^verbatim>\<open>{pick_id: 2.0, team: ""}\<close> and \<^verbatim>\<open>"3.0"\<close> with \<^verbatim>\<open>{pick_id: 3.0, team: ""}\<close>. The
  key is a float because of the empty row, and every document has every column of the
  sheet, an empty cell as the empty string.
\<close>

theorem example_writes_three_float_keyed_documents:
  "api_calls example_run =
     [BatchSet [''live_picks'', ''1.0''] [(''pick_id'', Flt ''1.0''), (''team'', Str ''A'')],
      BatchSet [''live_picks'', ''2.0''] [(''pick_id'', Flt ''2.0''), (''team'', Str [])],
      BatchSet [''live_picks'', ''3.0''] [(''pick_id'', Flt ''3.0''), (''team'', Str [])],
      BatchCommit] \<and>
   dom (docs example_run) =
     {[''live_picks'', ''1.0''], [''live_picks'', ''2.0''], [''live_picks'', ''3.0'']} \<and>
   docs example_run [''live_picks'', ''1.0''] =
     Some [(''pick_id'', Flt ''1.0''), (''team'', Str ''A'')] \<and>
   docs example_run [''live_picks'', ''2.0''] =
     Some [(''pick_id'', Flt ''2.0''), (''team'', Str [])] \<and>
   docs example_run [''live_picks'', ''3.0''] =
     Some [(''pick_id'', Flt ''3.0''), (''team'', Str [])]"
  by (auto simp: run_example)

subsection \<open>Rows that the reader drops\<close>

text \<open>
  C7, as stated, fails on a row whose cells are not empty but hold texts that the parser
  reads as missing: the second row of this sheet, \<^verbatim>\<open>NA\<close> and \<^verbatim>\<open>n/a\<close>, has no empty cell
  and is not in the table returned.
\<close>

theorem row_of_na_texts_counterexample:
  "na_text_sheet ! 2 = [''NA'', ''n/a''] \<and> ''NA'' \<noteq> [] \<and> ''n/a'' \<noteq> [] \<and>
   fst (fetch_sheet_data int_or_text (serving na_text_sheet) fresh_world) = Some 0 \<and>
   rows (frames (snd (fetch_sheet_data int_or_text (serving na_text_sheet) fresh_world)) 0) =
     [[Str ''x'', Str ''A''], [Str ''y'', Str ''B'']]"
  by (simp add: fetch_sheet_data_def serving_def spreadsheet_with_def na_text_sheet_def
      fresh_world_def dropna_def dropna_rows_def get_as_dataframe_def int_or_text_def
      typed_cell_def int_column_def int_literal_def read_text_def na_values_def
      GOOGLE_SHEET_NAME_def WORKSHEET_NAME_def print_def new_frame_def isna_def
      upt_rec numeral_2_eq_2 numeral_3_eq_3)

text \<open>
  C7, amended. When the spreadsheet and the worksheet open and the worksheet is read, with
  every row as long as the header row, the sheet reader returns a table with the labels
  that the parser makes of the header and with exactly those rows, in their order, that
  have a cell whose text the parser does not read as missing. So every row whose cells are
  all empty, or all hold a text that stands for a missing value, is left out, and every
  other row is kept. (The parser gives one cell per text, missing where the text is.)
\<close>

theorem rows_read_as_missing_are_dropped:
  assumes "keeps_missing p"
    and "gc GOOGLE_SHEET_NAME = Inr sh" and "sh WORKSHEET_NAME = Inr (Inr (header # data))"
    and "list_all (\<lambda>r. length r = length header) data"
  shows "fst (fetch_sheet_data p gc w) = Some (next_frame w) \<and>
         columns (frames (snd (fetch_sheet_data p gc w)) (next_frame w)) = labels p header \<and>
         rows (frames (snd (fetch_sheet_data p gc w)) (next_frame w)) =
           map (\<lambda>i. rows (get_as_dataframe p (header # data)) ! i)
             (filter (\<lambda>i. \<exists>t\<in>set (data ! i). t \<notin> set na_values) [0..<length data])"
proof -
  have k: "kept_rows data =
      filter (\<lambda>i. \<exists>t\<in>set (data ! i). t \<notin> set na_values) [0..<length data]"
    by (simp add: kept_rows_def list_all_iff)
  have c: "columns (dropna_rows (get_as_dataframe p (header # data))) = labels p header"
    by (simp add: dropna_rows_def get_as_dataframe_def)
  show ?thesis
    using dropna_parsed_rows [OF assms(1,4)] c
    by (simp add: fetch_sheet_data_def assms(2,3) new_frame_def dropna_def print_def k)
qed

theorem rows_read_as_missing_are_dropped_witness:
  "fst (fetch_sheet_data int_or_text (serving example_sheet) fresh_world) = Some 0 \<and>
   columns (frames (snd (fetch_sheet_data int_or_text (serving example_sheet) fresh_world)) 0) =
     [''pick_id'', ''team''] \<and>
   rows (frames (snd (fetch_sheet_data int_or_text (serving example_sheet) fresh_world)) 0) =
     [[Flt ''1.0'', Str ''A''], [Flt ''2.0'', NaN], [Flt ''3.0'', NaN]]"
proof -
  let ?header = "[''pick_id'', ''team'']"
  let ?data = "[[''1'', ''A''], [''2'', []], [[], []], [''3'', []]]"
  have h1: "serving example_sheet GOOGLE_SHEET_NAME = Inr (spreadsheet_with example_sheet)"
    by (simp add: serving_def)
  have h2: "spreadsheet_with example_sheet WORKSHEET_NAME = Inr (Inr (?header # ?data))"
    by (simp add: spreadsheet_with_def example_sheet_def)
  have h3: "list_all (\<lambda>r. length r = length ?header) ?data"
    by simp
  have parsed: "rows (get_as_dataframe int_or_text (?header # ?data)) =
      [[Flt ''1.0'', Str ''A''], [Flt ''2.0'', NaN], [NaN, NaN], [Flt ''3.0'', NaN]]"
    by (simp add: get_as_dataframe_def int_or_text_def typed_cell_def int_column_def
        int_literal_def read_text_def na_values_def str_nat.simps upt_rec numeral_2_eq_2
        numeral_3_eq_3)
  have kept: "filter (\<lambda>i. \<exists>t\<in>set (?data ! i). t \<notin> set na_values) [0..<length ?data] = [0, 1, 3]"
    by (simp add: na_values_def upt_rec numeral_2_eq_2 numeral_3_eq_3)
  show ?thesis
    using rows_read_as_missing_are_dropped [of int_or_text "serving example_sheet"
        "spreadsheet_with example_sheet" ?header ?data fresh_world,
        OF int_or_text_keeps_missing h1 h2 h3]
    unfolding parsed kept
    by (simp add: fresh_world_def int_or_text_def)
qed

subsection \<open>Rows that share a document ID, and rows that do not\<close>

lemma batch_of_nth:
  "i < length (rows df) \<Longrightarrow>
     batch_of df ! i = (doc_ref_of (body_of df (rows df ! i)), body_of df (rows df ! i))"
  by (simp add: batch_of_def bodies_def write_of_def)

lemma map_fst_batch_of:
  "map fst (batch_of df) = map (\<lambda>r. doc_ref_of (body_of df r)) (rows df)"
  by (simp add: batch_of_def bodies_def write_of_def)

lemma map_set_of_bodies:
  "map set_of (bodies df) = map (\<lambda>r. set_of (body_of df r)) (rows df)"
  by (simp add: bodies_def)

lemma run_mixed_keys:
  "docs (update_firebase reliable (Some 0) (holding mixed_keys)) =
     [[''live_picks'', ''1''] \<mapsto> [(''pick_id'', Str ''1''), (''team'', Str ''B'')]]"
  by (simp add: update_firebase_def update_firebase_try_def holding_def fresh_world_def
      mixed_keys_def df_empty_def KEY_COLUMN_def FIRESTORE_COLLECTION_def reliable_def
      print_def call_def fillna_def new_frame_def fillna_cells_def fillna_value_def isna_def
      to_dict_records_def py_dict_def Let_def apply_batch_def str_int_def str_nat.simps
      document_def int64_def)

lemma run_big_int_rows:
  "update_firebase reliable (Some 0) (holding big_int_rows) =
     (holding big_int_rows)
       \<lparr>frames := (frames (holding big_int_rows))(1 := big_int_rows),
        next_frame := 2,
        api_calls := [BatchSet [''live_picks'', ''1''] [(''pick_id'', Str ''1''), (''stake'', Num 5)]],
        stdout := [Connecting ''live_picks'', Preparing 2,
                   UpdateFailed (ValueError ''integer out of range'')]\<rparr>"
  by (simp add: update_firebase_def update_firebase_try_def holding_def fresh_world_def
      big_int_rows_def df_empty_def KEY_COLUMN_def FIRESTORE_COLLECTION_def reliable_def
      print_def call_def fillna_def new_frame_def fillna_cells_def fillna_value_def isna_def
      to_dict_records_def py_dict_def Let_def document_def int64_def)

lemma bodies_duplicate_keys:
  "bodies duplicate_keys =
     [[(''pick_id'', Str ''1''), (''team'', Str ''A'')],
      [(''pick_id'', Str ''2''), (''team'', Str ''B'')],
      [(''pick_id'', Str ''1''), (''team'', Str ''C'')]]"
  by (simp add: bodies_def body_of_def duplicate_keys_def row_record_def py_dict_def
      normalized_def)

lemma reliable_accepts:
  assumes "list_all (\<lambda>(ref, doc). even (length ref) \<and> list_all (\<lambda>(k, v). int64 v) doc) batch"
  shows "accepts reliable batch"
  using assms by (auto simp: accepts_def reliable_def list_all_iff)

text \<open>
  C8, as stated, fails where a call of the store raises in the loop: of these two rows
  with the key \<^verbatim>\<open>1\<close>, the second holds an integer that does not fit 64 bits, so its
  \<^verbatim>\<open>batch.set\<close> raises. One operation is staged, nothing is committed, no document is
  written, and the failure is printed.
\<close>

theorem set_raises_counterexample:
  "rows big_int_rows = [[Str ''1'', Num 5], [Str ''1'', Num (2 ^ 63)]] \<and>
   api_calls (update_firebase reliable (Some 0) (holding big_int_rows)) =
     [BatchSet [''live_picks'', ''1''] [(''pick_id'', Str ''1''), (''stake'', Num 5)]] \<and>
   docs (update_firebase reliable (Some 0) (holding big_int_rows)) [''live_picks'', ''1''] = None \<and>
   stdout (update_firebase reliable (Some 0) (holding big_int_rows)) =
     [Connecting ''live_picks'', Preparing 2, UpdateFailed (ValueError ''integer out of range'')]"
  by (simp add: run_big_int_rows) (simp add: big_int_rows_def holding_def fresh_world_def)

text \<open>
  C8, amended. For a table with at least one row and the key column, when no call of the
  store raises: the writer stages one \<^verbatim>\<open>batch.set\<close> per row, in table order, and then
  commits, with no deduplication and no error printed; and for every row that is the last
  one in table order with its key string, the document that this string addresses is,
  after the run, the body of that row. So where rows share a key string, the last of them
  is what remains.
\<close>

theorem later_row_overwrites_earlier:
  assumes "rows (frames w a) \<noteq> []" and "wf_df (frames w a)"
    and "KEY_COLUMN \<in> set (columns (frames w a))"
    and "accepts api (batch_of (frames w a))"
    and "i < length (rows (frames w a))"
    and "\<forall>j. i < j \<and> j < length (rows (frames w a)) \<longrightarrow>
           doc_id_of (body_of (frames w a) (rows (frames w a) ! j)) \<noteq>
           doc_id_of (body_of (frames w a) (rows (frames w a) ! i))"
  shows "api_calls (update_firebase api (Some a) w) =
           api_calls w @ map (\<lambda>r. set_of (body_of (frames w a) r)) (rows (frames w a))
             @ [BatchCommit] \<and>
         docs (update_firebase api (Some a) w)
             (doc_ref_of (body_of (frames w a) (rows (frames w a) ! i))) =
           Some (body_of (frames w a) (rows (frames w a) ! i)) \<and>
         stdout (update_firebase api (Some a) w) =
           stdout w @ [Connecting FIRESTORE_COLLECTION,
                       Preparing (length (rows (frames w a))), UpdateComplete]"
proof -
  let ?T = "frames w a"
  have len: "length (batch_of ?T) = length (rows ?T)"
    by (simp add: batch_of_def bodies_def)
  have later: "\<forall>j. i < j \<and> j < length (batch_of ?T) \<longrightarrow>
      fst (batch_of ?T ! j) \<noteq> fst (batch_of ?T ! i)"
  proof (intro allI impI)
    fix j
    assume j: "i < j \<and> j < length (batch_of ?T)"
    then have "doc_id_of (body_of ?T (rows ?T ! j)) \<noteq> doc_id_of (body_of ?T (rows ?T ! i))"
      using assms(6) by (simp add: len)
    then have "doc_ref_of (body_of ?T (rows ?T ! j)) \<noteq> doc_ref_of (body_of ?T (rows ?T ! i))"
      using doc_ref_of_inject by blast
    then show "fst (batch_of ?T ! j) \<noteq> fst (batch_of ?T ! i)"
      using j assms(5) by (simp add: len batch_of_nth)
  qed
  have "apply_batch (batch_of ?T) (docs w) (fst (batch_of ?T ! i)) = Some (snd (batch_of ?T ! i))"
    using assms(5) later by (intro apply_batch_last) (simp_all add: len)
  then have d: "apply_batch (batch_of ?T) (docs w) (doc_ref_of (body_of ?T (rows ?T ! i))) =
      Some (body_of ?T (rows ?T ! i))"
    using assms(5) by (simp add: batch_of_nth)
  show ?thesis
    by (simp add: update_firebase_ok [OF assms(1-4)] d map_set_of_bodies)
qed

theorem later_row_overwrites_earlier_witness:
  "api_calls (update_firebase reliable (Some 0) (holding duplicate_keys)) =
     [BatchSet [''live_picks'', ''1''] [(''pick_id'', Str ''1''), (''team'', Str ''A'')],
      BatchSet [''live_picks'', ''2''] [(''pick_id'', Str ''2''), (''team'', Str ''B'')],
      BatchSet [''live_picks'', ''1''] [(''pick_id'', Str ''1''), (''team'', Str ''C'')],
      BatchCommit] \<and>
   docs (update_firebase reliable (Some 0) (holding duplicate_keys)) [''live_picks'', ''1''] =
     Some [(''pick_id'', Str ''1''), (''team'', Str ''C'')] \<and>
   stdout (update_firebase reliable (Some 0) (holding duplicate_keys)) =
     [Connecting ''live_picks'', Preparing 3, UpdateComplete]"
proof -
  let ?w = "holding duplicate_keys"
  have T: "frames ?w 0 = duplicate_keys" by (simp add: holding_def)
  have r0: "body_of duplicate_keys (rows duplicate_keys ! 2) = bodies duplicate_keys ! 2"
    by (simp add: bodies_def duplicate_keys_def)
  have h1: "rows (frames ?w 0) \<noteq> []"
    unfolding T by (simp add: duplicate_keys_def)
  have h2: "wf_df (frames ?w 0)"
    unfolding T by (simp add: duplicate_keys_def wf_df_def)
  have h3: "KEY_COLUMN \<in> set (columns (frames ?w 0))"
    unfolding T by (simp add: duplicate_keys_def KEY_COLUMN_def)
  have h4: "accepts reliable (batch_of (frames ?w 0))"
    unfolding T batch_of_def bodies_duplicate_keys
    by (rule reliable_accepts)
      (simp add: write_of_def doc_ref_of_def doc_id_of_def KEY_COLUMN_def
        FIRESTORE_COLLECTION_def int64_def)
  have h5: "2 < length (rows (frames ?w 0))"
    unfolding T by (simp add: duplicate_keys_def)
  have h6: "\<forall>j. 2 < j \<and> j < length (rows (frames ?w 0)) \<longrightarrow>
           doc_id_of (body_of (frames ?w 0) (rows (frames ?w 0) ! j)) \<noteq>
           doc_id_of (body_of (frames ?w 0) (rows (frames ?w 0) ! 2))"
  proof (intro allI impI)
    fix j
    assume "2 < j \<and> j < length (rows (frames ?w 0))"
    then have "2 < j \<and> j < 3" unfolding T by (simp add: duplicate_keys_def)
    then have False by arith
    then show "doc_id_of (body_of (frames ?w 0) (rows (frames ?w 0) ! j)) \<noteq>
           doc_id_of (body_of (frames ?w 0) (rows (frames ?w 0) ! 2))" ..
  qed
  have calls: "map (\<lambda>r. set_of (body_of duplicate_keys r)) (rows duplicate_keys) =
     [BatchSet [''live_picks'', ''1''] [(''pick_id'', Str ''1''), (''team'', Str ''A'')],
      BatchSet [''live_picks'', ''2''] [(''pick_id'', Str ''2''), (''team'', Str ''B'')],
      BatchSet [''live_picks'', ''1''] [(''pick_id'', Str ''1''), (''team'', Str ''C'')]]"
    unfolding map_set_of_bodies [symmetric] bodies_duplicate_keys
    by (simp add: set_of_def doc_ref_of_def doc_id_of_def KEY_COLUMN_def FIRESTORE_COLLECTION_def)
  have ref: "doc_ref_of (bodies duplicate_keys ! 2) = [''live_picks'', ''1'']"
    unfolding bodies_duplicate_keys
    by (simp add: doc_ref_of_def doc_id_of_def KEY_COLUMN_def FIRESTORE_COLLECTION_def)
  have len: "length (rows duplicate_keys) = 3" by (simp add: duplicate_keys_def)
  have e: "api_calls ?w = [] \<and> stdout ?w = []" by (simp add: holding_def fresh_world_def)
  show ?thesis
    using later_row_overwrites_earlier [OF h1 h2 h3 h4 h5 h6]
    unfolding T calls r0 ref len
    by (simp add: e bodies_duplicate_keys FIRESTORE_COLLECTION_def)
qed

lemma distinct_doc_refs:
  assumes "distinct (map (\<lambda>r. doc_id_of (body_of df r)) (rows df))"
  shows "distinct (map (\<lambda>r. doc_ref_of (body_of df r)) (rows df))"
proof -
  have "distinct (map f xs) \<Longrightarrow> distinct (map (\<lambda>x. c # split_slash (f x)) xs)"
    for f :: "cell list \<Rightarrow> string" and c :: string and xs
    by (induction xs) (auto dest: split_slash_inject)
  from this [OF assms] show ?thesis by (simp add: doc_ref_of_path)
qed

text \<open>
  C1, amended. For a table with at least one row and the key column, in which the string
  forms of the normalized key-column values are pairwise distinct and have no slash, when
  no call of the store raises: the writer stages one \<^verbatim>\<open>batch.set\<close> per row and commits;
  after the run every row has its document in the collection, under the string form of its
  normalized key value as ID, with the normalized row record as body; no other document
  has changed; and the documents written are as many as the rows.
\<close>

theorem distinct_ids_one_document_per_row:
  assumes "rows (frames w a) \<noteq> []" and "wf_df (frames w a)"
    and "KEY_COLUMN \<in> set (columns (frames w a))"
    and "distinct (map (\<lambda>r. doc_id_of (body_of (frames w a) r)) (rows (frames w a)))"
    and "\<forall>r\<in>set (rows (frames w a)). CHR ''/'' \<notin> set (doc_id_of (body_of (frames w a) r))"
    and "accepts api (batch_of (frames w a))"
  shows "api_calls (update_firebase api (Some a) w) =
           api_calls w @
           map (\<lambda>r. BatchSet [FIRESTORE_COLLECTION, doc_id_of (body_of (frames w a) r)]
                       (body_of (frames w a) r)) (rows (frames w a))
             @ [BatchCommit] \<and>
         (\<forall>r\<in>set (rows (frames w a)).
            map_of (body_of (frames w a) r) KEY_COLUMN \<noteq> None \<and>
            docs (update_firebase api (Some a) w)
                [FIRESTORE_COLLECTION, doc_id_of (body_of (frames w a) r)] =
              Some (body_of (frames w a) r)) \<and>
         (\<forall>ref. ref \<notin> (\<lambda>r. [FIRESTORE_COLLECTION, doc_id_of (body_of (frames w a) r)])
                       ` set (rows (frames w a)) \<longrightarrow>
            docs (update_firebase api (Some a) w) ref = docs w ref) \<and>
         card ((\<lambda>r. [FIRESTORE_COLLECTION, doc_id_of (body_of (frames w a) r)])
                 ` set (rows (frames w a))) =
           length (rows (frames w a))"
proof -
  let ?T = "frames w a"
  let ?ref = "\<lambda>r. doc_ref_of (body_of ?T r)"
  let ?id = "\<lambda>r. [FIRESTORE_COLLECTION, doc_id_of (body_of ?T r)]"
  have plain: "?ref r = ?id r" if "r \<in> set (rows ?T)" for r
    using assms(5) that by (simp add: doc_ref_of_plain)
  then have maps: "map ?ref (rows ?T) = map ?id (rows ?T)"
    and sets: "map (\<lambda>r. set_of (body_of ?T r)) (rows ?T) =
               map (\<lambda>r. BatchSet (?id r) (body_of ?T r)) (rows ?T)"
    and image: "?ref ` set (rows ?T) = ?id ` set (rows ?T)"
    by (simp_all add: set_of_def)
  have run: "docs (update_firebase api (Some a) w) = apply_batch (batch_of ?T) (docs w)"
    and calls: "api_calls (update_firebase api (Some a) w) =
           api_calls w @ map (\<lambda>r. BatchSet (?id r) (body_of ?T r)) (rows ?T) @ [BatchCommit]"
    by (simp_all add: update_firebase_ok [OF assms(1-3,6)] map_set_of_bodies sets)
  have dist: "distinct (map ?ref (rows ?T))"
    using assms(4) by (rule distinct_doc_refs)
  then have dist_rev: "distinct (map fst (rev (batch_of ?T)))"
    by (simp add: map_fst_batch_of rev_map [symmetric])
  have written: "docs (update_firebase api (Some a) w) (?id r) = Some (body_of ?T r)"
    if "r \<in> set (rows ?T)" for r
  proof -
    from that have "(?ref r, body_of ?T r) \<in> set (rev (batch_of ?T))"
      by (auto simp: batch_of_def bodies_def write_of_def)
    then have "map_of (rev (batch_of ?T)) (?ref r) = Some (body_of ?T r)"
      using dist_rev by simp
    then show ?thesis by (simp add: run apply_batch_conv plain [OF that, symmetric])
  qed
  have key: "map_of (body_of ?T r) KEY_COLUMN \<noteq> None" if "r \<in> set (rows ?T)" for r
    using bodies_have_key [OF assms(2,3), of "body_of ?T r"] that by (auto simp: bodies_def)
  have other: "docs (update_firebase api (Some a) w) ref = docs w ref"
    if "ref \<notin> ?id ` set (rows ?T)" for ref
  proof -
    have "fst ` set (batch_of ?T) = ?ref ` set (rows ?T)"
      using map_fst_batch_of [of ?T] by (metis set_map)
    with that image show ?thesis by (simp add: run apply_batch_other)
  qed
  have "card (set (map ?ref (rows ?T))) = length (map ?ref (rows ?T))"
    using dist by (rule distinct_card)
  then have card: "card (?id ` set (rows ?T)) = length (rows ?T)"
    by (simp add: image)
  show ?thesis using calls written key other card by blast
qed

theorem distinct_ids_one_document_per_row_witness:
  "docs (update_firebase reliable (Some 0) (holding unique_keys)) [''live_picks'', ''7''] =
     Some [(''pick_id'', Num 7), (''team'', Str ''A'')] \<and>
   docs (update_firebase reliable (Some 0) (holding unique_keys)) [''live_picks'', ''x''] =
     Some [(''pick_id'', Str ''x''), (''team'', Str [])] \<and>
   docs (update_firebase reliable (Some 0) (holding unique_keys)) [''live_picks'', ''y''] = None \<and>
   api_calls (update_firebase reliable (Some 0) (holding unique_keys)) =
     [BatchSet [''live_picks'', ''7''] [(''pick_id'', Num 7), (''team'', Str ''A'')],
      BatchSet [''live_picks'', ''x''] [(''pick_id'', Str ''x''), (''team'', Str [])],
      BatchCommit]"
proof -
  let ?w = "holding unique_keys"
  have T: "frames ?w 0 = unique_keys" by (simp add: holding_def)
  have rows: "rows unique_keys = [[Num 7, Str ''A''], [Str ''x'', NaN]]"
    by (simp add: unique_keys_def)
  have b1: "body_of unique_keys [Num 7, Str ''A''] = [(''pick_id'', Num 7), (''team'', Str ''A'')]"
    and b2: "body_of unique_keys [Str ''x'', NaN] = [(''pick_id'', Str ''x''), (''team'', Str [])]"
    by (simp_all add: body_of_def unique_keys_def row_record_def py_dict_def normalized_def)
  have i1: "doc_id_of [(''pick_id'', Num 7), (''team'', Str ''A'')] = ''7''"
    and i2: "doc_id_of [(''pick_id'', Str ''x''), (''team'', Str [])] = ''x''"
    by (simp_all add: doc_id_of_def KEY_COLUMN_def str_int_def str_nat.simps)
  have h1: "rows (frames ?w 0) \<noteq> []" unfolding T by (simp add: rows)
  have h2: "wf_df (frames ?w 0)" unfolding T by (simp add: unique_keys_def wf_df_def)
  have h3: "KEY_COLUMN \<in> set (columns (frames ?w 0))"
    unfolding T by (simp add: unique_keys_def KEY_COLUMN_def)
  have h4: "distinct (map (\<lambda>r. doc_id_of (body_of (frames ?w 0) r)) (rows (frames ?w 0)))"
    unfolding T rows by (simp add: b1 b2 i1 i2)
  have h5: "\<forall>r\<in>set (rows (frames ?w 0)). CHR ''/'' \<notin> set (doc_id_of (body_of (frames ?w 0) r))"
    unfolding T rows by (simp add: b1 b2 i1 i2)
  have h6: "accepts reliable (batch_of (frames ?w 0))"
    unfolding T batch_of_def bodies_def rows
    by (rule reliable_accepts)
      (simp add: b1 b2 write_of_def doc_ref_of_def i1 i2 FIRESTORE_COLLECTION_def int64_def)
  have e: "api_calls ?w = [] \<and> docs ?w = Map.empty" by (simp add: holding_def fresh_world_def)
  show ?thesis
    using distinct_ids_one_document_per_row [OF h1 h2 h3 h4 h5 h6]
    unfolding T rows
    by (simp add: b1 b2 i1 i2 e FIRESTORE_COLLECTION_def)
qed

text \<open>
  C1, as stated, fails where two different key values have the same string form: the
  number 1 and the string \<^verbatim>\<open>"1"\<close> are two unique values of the key column, and the
  run leaves a single document, \<^verbatim>\<open>"1"\<close>, with the body of the second row.
\<close>

theorem distinct_values_same_string_counterexample:
  "rows mixed_keys = [[Num 1, Str ''A''], [Str ''1'', Str ''B'']] \<and>
   map_of (row_record mixed_keys [Num 1, Str ''A'']) KEY_COLUMN = Some (Num 1) \<and>
   map_of (row_record mixed_keys [Str ''1'', Str ''B'']) KEY_COLUMN = Some (Str ''1'') \<and>
   Num 1 \<noteq> Str ''1'' \<and>
   dom (docs (update_firebase reliable (Some 0) (holding mixed_keys))) = {[''live_picks'', ''1'']} \<and>
   docs (update_firebase reliable (Some 0) (holding mixed_keys)) [''live_picks'', ''1''] =
     Some [(''pick_id'', Str ''1''), (''team'', Str ''B'')]"
  by (simp add: run_mixed_keys) (simp add: mixed_keys_def row_record_def py_dict_def KEY_COLUMN_def)

subsection \<open>Rows without the key\<close>

lemma run_missing_key_cell_refused:
  "api_calls (update_firebase refusing (Some 0) (holding missing_key_cell)) =
     [BatchSet [''live_picks'', ''1''] [(''pick_id'', Str ''1''), (''team'', Str ''A'')],
      BatchSet [''live_picks'', []] [(''pick_id'', Str []), (''team'', Str ''B'')],
      BatchCommit] \<and>
   stdout (update_firebase refusing (Some 0) (holding missing_key_cell)) =
     [Connecting ''live_picks'', Preparing 2, UpdateFailed (ServiceError ''commit refused'')]"
  by (simp add: update_firebase_def update_firebase_try_def holding_def fresh_world_def
      missing_key_cell_def df_empty_def KEY_COLUMN_def FIRESTORE_COLLECTION_def reliable_def
      refusing_def
      print_def call_def fillna_def new_frame_def fillna_cells_def fillna_value_def isna_def
      to_dict_records_def py_dict_def Let_def document_def int64_def)

text \<open>
  C4, as stated, fails: for a table whose second row has no value in the key column, the
  writer does not reject the row and does not stop before the batch is sent. It stages
  both rows, the second under the empty document ID, and calls the commit; this is so
  whether the store then accepts the commit or refuses it, and the only error there can be
  is the one that the commit raises.
\<close>

theorem missing_key_cell_counterexample:
  "rows missing_key_cell = [[Str ''1'', Str ''A''], [NaN, Str ''B'']] \<and>
   map_of (row_record missing_key_cell [NaN, Str ''B'']) KEY_COLUMN = Some NaN \<and>
   api_calls (update_firebase reliable (Some 0) (holding missing_key_cell)) =
     [BatchSet [''live_picks'', ''1''] [(''pick_id'', Str ''1''), (''team'', Str ''A'')],
      BatchSet [''live_picks'', []] [(''pick_id'', Str []), (''team'', Str ''B'')],
      BatchCommit] \<and>
   api_calls (update_firebase refusing (Some 0) (holding missing_key_cell)) =
     [BatchSet [''live_picks'', ''1''] [(''pick_id'', Str ''1''), (''team'', Str ''A'')],
      BatchSet [''live_picks'', []] [(''pick_id'', Str []), (''team'', Str ''B'')],
      BatchCommit] \<and>
   stdout (update_firebase refusing (Some 0) (holding missing_key_cell)) =
     [Connecting ''live_picks'', Preparing 2, UpdateFailed (ServiceError ''commit refused'')]"
  by (simp add: run_missing_key_cell run_missing_key_cell_refused)
    (simp add: missing_key_cell_def row_record_def py_dict_def KEY_COLUMN_def)

text \<open>
  C4, amended. For a non-empty table (each row with a cell for every column) that has a
  row whose record does not contain the key column, which is so exactly when the columns
  of the table lack it, the whole operation stops with the error that names the key
  column: nothing is staged, nothing is committed, and no document is written.
\<close>

theorem row_without_key_column_aborts:
  assumes "\<not> df_empty (frames w a)" and "wf_df (frames w a)"
    and "r \<in> set (rows (frames w a))"
    and "map_of (row_record (frames w a) r) KEY_COLUMN = None"
  shows "KEY_COLUMN \<notin> set (columns (frames w a)) \<and>
         docs (update_firebase api (Some a) w) = docs w \<and>
         api_calls (update_firebase api (Some a) w) = api_calls w \<and>
         stdout (update_firebase api (Some a) w) =
           stdout w @ [KeyColumnNotFound KEY_COLUMN, AvailableColumns (columns (frames w a))]"
proof -
  from assms(2,3) have "length r = length (columns (frames w a))"
    by (simp add: wf_df_def list_all_iff)
  then have "fst ` set (row_record (frames w a) r) = set (columns (frames w a))"
    by (rule keys_row_record)
  moreover from assms(4) have "KEY_COLUMN \<notin> fst ` set (row_record (frames w a) r)"
    by (simp add: map_of_eq_None_iff)
  ultimately have no: "KEY_COLUMN \<notin> set (columns (frames w a))" by simp
  show ?thesis
    by (simp add: update_firebase_no_key [OF assms(1) no] no)
qed

theorem row_without_key_column_aborts_witness:
  "KEY_COLUMN \<notin> set (columns (frames (holding no_key_table) 0)) \<and>
   docs (update_firebase reliable (Some 0) (holding no_key_table)) = Map.empty \<and>
   api_calls (update_firebase reliable (Some 0) (holding no_key_table)) = [] \<and>
   stdout (update_firebase reliable (Some 0) (holding no_key_table)) =
     [KeyColumnNotFound ''pick_id'', AvailableColumns [''game_id'', ''team'']]"
proof -
  let ?v = "holding no_key_table"
  have V: "frames ?v 0 = no_key_table" by (simp add: holding_def)
  have h1: "\<not> df_empty (frames ?v 0)"
    unfolding V by (simp add: no_key_table_def df_empty_def)
  have h2: "wf_df (frames ?v 0)"
    unfolding V by (simp add: no_key_table_def wf_df_def)
  have h3: "[Str ''1'', Str ''A''] \<in> set (rows (frames ?v 0))"
    unfolding V by (simp add: no_key_table_def)
  have h4: "map_of (row_record (frames ?v 0) [Str ''1'', Str ''A'']) KEY_COLUMN = None"
    unfolding V by (simp add: no_key_table_def row_record_def py_dict_def KEY_COLUMN_def)
  have e: "api_calls ?v = [] \<and> docs ?v = Map.empty \<and> stdout ?v = []"
    by (simp add: holding_def fresh_world_def)
  have cols: "columns no_key_table = [''game_id'', ''team'']" by (simp add: no_key_table_def)
  show ?thesis
    using row_without_key_column_aborts [OF h1 h2 h3 h4, of reliable]
    unfolding V by (simp add: e cols KEY_COLUMN_def)
qed

end
